theory Spec2Isabelle
  imports Complex_Main "HOL-Library.Product_Lexorder"
begin

section \<open>The ledger: two tables and the faults of the connection\<close>

text \<open>
  The server keeps no state of its own: every handler reads the two tables of
  \<^verbatim>\<open>01_create_tables.sql\<close> through the global handle \<^verbatim>\<open>db\<close>.
  A calendar date (SQL \<^verbatim>\<open>DATE\<close>) is the triple (year, month, day) under the
  lexicographic order, so that \<^verbatim>\<open><=\<close> on dates is \<open>\<le>\<close> and \<^verbatim>\<open>YEAR(d)\<close>
  is the first component.

  Amounts of money are \<^verbatim>\<open>float64\<close> in the Go code and \<^verbatim>\<open>DOUBLE\<close> in the SQL
  expression \<^verbatim>\<open>quantity * price / ?\<close>. They are modelled as exact rationals: the
  development describes the arithmetic the handlers ask for, not the rounding of each
  binary floating-point operation. Go's \<^verbatim>\<open>int\<close> and \<^verbatim>\<open>int64\<close> are unbounded integers
  here (a sum of 32-bit quantities does not leave 64 bits on any table that fits a disk).
  The comparison \<^verbatim>\<open>user_id = ?\<close> is equality of strings: the collation of the column
  is not set by the source.
\<close>

type_synonym date = "int \<times> int \<times> int"

definition YEAR :: "date \<Rightarrow> int" where
  "YEAR d = fst d"

definition UNIT_PER_PRICE_BASE :: rat where
  "UNIT_PER_PRICE_BASE = 10000"

text \<open>Rows of \<^verbatim>\<open>trade_histories\<close> and \<^verbatim>\<open>reference_prices\<close>; the field names are the
  SQL columns under the aliases \<^verbatim>\<open>th\<close> and \<^verbatim>\<open>rp\<close> of the queries.\<close>

record trade_history =
  th_user_id :: string
  th_fund_id :: int
  th_quantity :: int
  th_trade_date :: date

record reference_price =
  rp_fund_id :: int
  rp_price :: rat
  rp_price_date :: date

text \<open>
  The database as a handler sees it: the rows of both tables, and what the driver may
  answer instead of data. \<open>query_fails\<close>: \<^verbatim>\<open>db.Query\<close> (or the \<^verbatim>\<open>COUNT\<close> row) returns an
  error. \<open>rows_fail_after = Some n\<close>: the result set breaks after \<open>n\<close> rows
  (\<^verbatim>\<open>rows.Next()\<close> turns false and \<^verbatim>\<open>rows.Err()\<close> is set). \<open>price_query_fails f\<close>: the
  price lookup of fund \<open>f\<close> returns an error other than \<^verbatim>\<open>sql.ErrNoRows\<close>.
  \<^verbatim>\<open>rows.Scan\<close> into the three (four) typed, non-null columns is taken to succeed.
\<close>

record database =
  trade_histories :: "trade_history list"
  reference_prices :: "reference_price list"
  query_fails :: bool
  rows_fail_after :: "nat option"
  price_query_fails :: "int \<Rightarrow> bool"

text \<open>The primary key of \<^verbatim>\<open>reference_prices\<close>: \<^verbatim>\<open>PRIMARY KEY (fund_id, price_date)\<close>.\<close>

definition pk_reference_prices :: "database \<Rightarrow> bool" where
  "pk_reference_prices db =
     distinct (map (\<lambda>p. (rp_fund_id p, rp_price_date p)) (reference_prices db))"

section \<open>The SQL of the handlers\<close>

text \<open>
  \<^verbatim>\<open>FROM trade_histories th JOIN reference_prices rp_buy
       ON th.fund_id = rp_buy.fund_id AND th.trade_date = rp_buy.price_date
     WHERE th.user_id = ? AND th.trade_date <= ?\<close>
  is the list of pairs of a trade and a price row that pass both conditions.
\<close>

definition join_on :: "trade_history \<Rightarrow> reference_price \<Rightarrow> bool" where
  "join_on t p = (th_fund_id t = rp_fund_id p \<and> th_trade_date t = rp_price_date p)"

definition joined_rows ::
  "database \<Rightarrow> string \<Rightarrow> date \<Rightarrow> (trade_history \<times> reference_price) list" where
  "joined_rows db userID d =
     [(t, p). t \<leftarrow> trade_histories db, p \<leftarrow> reference_prices db, join_on t p,
              th_user_id t = userID \<and> th_trade_date t \<le> d]"

text \<open>The two aggregates of the select list, over the rows of one group:
  \<^verbatim>\<open>SUM(th.quantity)\<close> and \<^verbatim>\<open>SUM(th.quantity * rp_buy.price / ?)\<close> with the
  parameter \<^verbatim>\<open>UNIT_PER_PRICE_BASE\<close>.\<close>

definition sum_quantity :: "(trade_history \<times> reference_price) list \<Rightarrow> int" where
  "sum_quantity g = (\<Sum>(t, p)\<leftarrow>g. th_quantity t)"

definition sum_buy_cost :: "(trade_history \<times> reference_price) list \<Rightarrow> rat" where
  "sum_buy_cost g = (\<Sum>(t, p)\<leftarrow>g. of_int (th_quantity t) * rp_price p / UNIT_PER_PRICE_BASE)"

text \<open>\<^verbatim>\<open>GROUP BY th.fund_id\<close>: one row (fund_id, total_quantity, total_buy_cost) for
  each fund that occurs in the join; \<^verbatim>\<open>HAVING total_quantity > 0\<close> filters the groups.\<close>

definition fund_groups :: "database \<Rightarrow> string \<Rightarrow> date \<Rightarrow> (int \<times> int \<times> rat) list" where
  "fund_groups db userID d =
     (let j = joined_rows db userID d in
      map (\<lambda>f. let g = filter (\<lambda>(t, p). th_fund_id t = f) j
               in (f, sum_quantity g, sum_buy_cost g))
          (remdups (map (\<lambda>(t, p). th_fund_id t) j)))"

definition positions_rows :: "database \<Rightarrow> string \<Rightarrow> date \<Rightarrow> (int \<times> int \<times> rat) list" where
  "positions_rows db userID d =
     filter (\<lambda>(f, total_quantity, total_buy_cost). total_quantity > 0)
            (fund_groups db userID d)"

text \<open>\<^verbatim>\<open>GROUP BY trade_year, th.fund_id\<close> of the by-year handler: rows
  (trade_year, fund_id, total_quantity, total_buy_cost).\<close>

definition year_fund_groups ::
  "database \<Rightarrow> string \<Rightarrow> date \<Rightarrow> (int \<times> int \<times> int \<times> rat) list" where
  "year_fund_groups db userID d =
     (let j = joined_rows db userID d in
      map (\<lambda>(y, f). let g = filter (\<lambda>(t, p). YEAR (th_trade_date t) = y \<and> th_fund_id t = f) j
                    in (y, f, sum_quantity g, sum_buy_cost g))
          (remdups (map (\<lambda>(t, p). (YEAR (th_trade_date t), th_fund_id t)) j)))"

definition yearly_rows ::
  "database \<Rightarrow> string \<Rightarrow> date \<Rightarrow> (int \<times> int \<times> int \<times> rat) list" where
  "yearly_rows db userID d =
     filter (\<lambda>(y, f, total_quantity, total_buy_cost). total_quantity > 0)
            (year_fund_groups db userID d)"

text \<open>
  What \<^verbatim>\<open>db.Query\<close> and the loop \<^verbatim>\<open>for rows.Next()\<close> hand to the handler: nothing when
  the query fails, else the rows up to the point where the result set breaks.
\<close>

definition delivered :: "database \<Rightarrow> 'a list \<Rightarrow> 'a list" where
  "delivered db rows = (case rows_fail_after db of None \<Rightarrow> rows | Some n \<Rightarrow> take n rows)"

definition db_Query :: "database \<Rightarrow> 'a list \<Rightarrow> 'a list option" where
  "db_Query db rows = (if query_fails db then None else Some (delivered db rows))"

text \<open>
  The price lookup, the same text in both valuation handlers:
  \<^verbatim>\<open>SELECT price FROM reference_prices WHERE fund_id = ? AND price_date <= ?
     ORDER BY price_date DESC LIMIT 1\<close>
  followed by \<^verbatim>\<open>Scan(&currentPrice)\<close>, whose error is \<^verbatim>\<open>sql.ErrNoRows\<close> when the
  result is empty.
\<close>

datatype price_scan = Price rat | ErrNoRows | ErrOther

definition order_by_price_date_desc :: "reference_price list \<Rightarrow> reference_price list" where
  "order_by_price_date_desc ps = rev (sort_key rp_price_date ps)"

definition current_price_query :: "database \<Rightarrow> int \<Rightarrow> date \<Rightarrow> price_scan" where
  "current_price_query db fundID d =
     (if price_query_fails db fundID then ErrOther
      else case order_by_price_date_desc
                  (filter (\<lambda>p. rp_fund_id p = fundID \<and> rp_price_date p \<le> d)
                          (reference_prices db)) of
             [] \<Rightarrow> ErrNoRows
           | p # _ \<Rightarrow> Price (rp_price p))"

section \<open>The handlers\<close>

text \<open>The Go structs. \<^verbatim>\<open>Position.TradeDate\<close> is never written or read by a handler and
  is left out; the by-year response structs carry the suffix \<open>Y\<close> on the field names
  they share with \<^verbatim>\<open>AssetData\<close>.\<close>

record Position =
  FundID :: int
  TotalQuantity :: int
  TotalBuyCost :: rat

record TradesResponse =
  Count :: int

record AssetData =
  Date :: date
  CurrentValue :: int
  CurrentPL :: int

record YearlyAsset =
  Year :: int
  CurrentValueY :: int
  CurrentPLY :: int

record AssetsByYearResponse =
  DateY :: date
  Assets :: "YearlyAsset list"

record yearlyFundData =
  CurrentValueSum :: rat
  BuyAmountSum :: rat

text \<open>A handler answers with \<^verbatim>\<open>http.Error\<close> and a status, or with the JSON body.\<close>

datatype http_error = StatusBadRequest | StatusInternalServerError

text \<open>The query parameter \<^verbatim>\<open>date\<close> after \<^verbatim>\<open>time.Parse("2006-01-02", dateStr)\<close>:
  empty, refused by the parser, or a date.\<close>

datatype date_param = NoDate | BadDate | ParsedDate date

subsection \<open>\<^verbatim>\<open>getTradesCountHandler\<close>\<close>

text \<open>\<^verbatim>\<open>SELECT COUNT(*) FROM trade_histories WHERE user_id = ?\<close>\<close>

definition count_query :: "database \<Rightarrow> string \<Rightarrow> int" where
  "count_query db userID =
     int (length (filter (\<lambda>t. th_user_id t = userID) (trade_histories db)))"

definition getTradesCountHandler :: "database \<Rightarrow> string \<Rightarrow> http_error + TradesResponse" where
  "getTradesCountHandler db userID =
     (if query_fails db then Inl StatusInternalServerError
      else Inr \<lparr>Count = count_query db userID\<rparr>)"

subsection \<open>\<^verbatim>\<open>getAssetsHandler\<close>\<close>

text \<open>The loop over the rows fills the map \<^verbatim>\<open>positions\<close>.\<close>

fun scan_positions :: "(int \<times> int \<times> rat) list \<Rightarrow> (int \<rightharpoonup> Position) \<Rightarrow> (int \<rightharpoonup> Position)" where
  "scan_positions [] positions = positions"
| "scan_positions ((fundID, totalQuantity, totalBuyCost) # rows) positions =
     scan_positions rows
       (positions(fundID \<mapsto>
          \<lparr>FundID = fundID, TotalQuantity = totalQuantity, TotalBuyCost = totalBuyCost\<rparr>))"

text \<open>
  \<^verbatim>\<open>for _, pos := range positions\<close>. Go visits every key of a map once, in an order
  it does not specify: the order is the list \<open>ks\<close>, an argument of the model, and
  \<open>range_order ks m\<close> says that it is an order the runtime can choose. Both errors
  of the price lookup end in \<^verbatim>\<open>continue\<close>.
\<close>

definition range_order :: "'k list \<Rightarrow> ('k \<rightharpoonup> 'v) \<Rightarrow> bool" where
  "range_order ks m = (distinct ks \<and> set ks = dom m)"

fun range_positions ::
  "database \<Rightarrow> date \<Rightarrow> (int \<rightharpoonup> Position) \<Rightarrow> int list \<Rightarrow> rat \<times> rat \<Rightarrow> rat \<times> rat" where
  "range_positions db targetDate positions [] totals = totals"
| "range_positions db targetDate positions (k # ks) (totalCurrentValue, totalBuyAmount) =
     (case positions k of
        None \<Rightarrow> range_positions db targetDate positions ks (totalCurrentValue, totalBuyAmount)
      | Some pos \<Rightarrow>
          (case current_price_query db (FundID pos) targetDate of
             ErrNoRows \<Rightarrow>
               range_positions db targetDate positions ks (totalCurrentValue, totalBuyAmount)
           | ErrOther \<Rightarrow>
               range_positions db targetDate positions ks (totalCurrentValue, totalBuyAmount)
           | Price currentPrice \<Rightarrow>
               range_positions db targetDate positions ks
                 (totalCurrentValue
                    + (currentPrice * of_int (TotalQuantity pos)) / UNIT_PER_PRICE_BASE,
                  totalBuyAmount + TotalBuyCost pos)))"

definition target_date :: "date \<Rightarrow> date_param \<Rightarrow> date" where
  "target_date now dateStr = (case dateStr of ParsedDate d \<Rightarrow> d | _ \<Rightarrow> now)"

definition positions_of :: "database \<Rightarrow> string \<Rightarrow> date \<Rightarrow> (int \<rightharpoonup> Position)" where
  "positions_of db userID targetDate =
     scan_positions (delivered db (positions_rows db userID targetDate)) Map.empty"

text \<open>The handler: \<open>now\<close> is the local date of \<^verbatim>\<open>time.Now()\<close>, \<open>ks\<close> the order of the
  range loop.\<close>

text \<open>The second half of the handler, from the filled map to the JSON body.\<close>

definition assets_response :: "database \<Rightarrow> date \<Rightarrow> (int \<rightharpoonup> Position) \<Rightarrow> int list \<Rightarrow> AssetData" where
  "assets_response db targetDate positions ks =
     (let (totalCurrentValue, totalBuyAmount) =
             range_positions db targetDate positions ks (0, 0)
      in \<lparr>Date = targetDate,
          CurrentValue = \<lfloor>totalCurrentValue\<rfloor>,
          CurrentPL = \<lfloor>totalCurrentValue - totalBuyAmount\<rfloor>\<rparr>)"

definition getAssetsHandler ::
  "database \<Rightarrow> date \<Rightarrow> string \<Rightarrow> date_param \<Rightarrow> int list \<Rightarrow> http_error + AssetData" where
  "getAssetsHandler db now userID dateStr ks =
     (if dateStr = BadDate then Inl StatusBadRequest
      else
        let targetDate = target_date now dateStr in
        case db_Query db (positions_rows db userID targetDate) of
          None \<Rightarrow> Inl StatusInternalServerError
        | Some rows \<Rightarrow>
            Inr (assets_response db targetDate (scan_positions rows Map.empty) ks))"

subsection \<open>\<^verbatim>\<open>getAssetsByYearHandler\<close>\<close>

text \<open>The body of the loop after the price is known: \<^verbatim>\<open>yearlySummary[tradeYear]\<close> reads
  the zero struct for a year that has no entry yet.\<close>

definition add_to_year ::
  "(int \<rightharpoonup> yearlyFundData) \<Rightarrow> int \<Rightarrow> rat \<Rightarrow> int \<Rightarrow> rat \<Rightarrow> (int \<rightharpoonup> yearlyFundData)" where
  "add_to_year yearlySummary tradeYear currentPrice totalQuantity totalBuyCost =
     (let data = (case yearlySummary tradeYear of
                    None \<Rightarrow> \<lparr>CurrentValueSum = 0, BuyAmountSum = 0\<rparr>
                  | Some x \<Rightarrow> x);
          currentValueForFund = (currentPrice * of_int totalQuantity) / UNIT_PER_PRICE_BASE
      in yearlySummary(tradeYear \<mapsto>
           \<lparr>CurrentValueSum = CurrentValueSum data + currentValueForFund,
            BuyAmountSum = BuyAmountSum data + totalBuyCost\<rparr>))"

text \<open>The loop over the rows, with the state (\<^verbatim>\<open>yearlySummary\<close>, \<^verbatim>\<open>priceCache\<close>). A price
  is cached only when the lookup found one.\<close>

fun scan_years ::
  "database \<Rightarrow> date \<Rightarrow> (int \<times> int \<times> int \<times> rat) list
     \<Rightarrow> (int \<rightharpoonup> yearlyFundData) \<times> (int \<rightharpoonup> rat) \<Rightarrow> (int \<rightharpoonup> yearlyFundData) \<times> (int \<rightharpoonup> rat)" where
  "scan_years db currentDate [] state = state"
| "scan_years db currentDate ((tradeYear, fundID, totalQuantity, totalBuyCost) # rows)
       (yearlySummary, priceCache) =
     (case priceCache fundID of
        Some currentPrice \<Rightarrow>
          scan_years db currentDate rows
            (add_to_year yearlySummary tradeYear currentPrice totalQuantity totalBuyCost,
             priceCache)
      | None \<Rightarrow>
          (case current_price_query db fundID currentDate of
             ErrNoRows \<Rightarrow> scan_years db currentDate rows (yearlySummary, priceCache)
           | ErrOther \<Rightarrow> scan_years db currentDate rows (yearlySummary, priceCache)
           | Price currentPrice \<Rightarrow>
               scan_years db currentDate rows
                 (add_to_year yearlySummary tradeYear currentPrice totalQuantity totalBuyCost,
                  priceCache(fundID \<mapsto> currentPrice))))"

text \<open>\<^verbatim>\<open>for year, data := range yearlySummary\<close> appends one \<^verbatim>\<open>YearlyAsset\<close> per key, in the
  order \<open>ks\<close> of the range loop.\<close>

fun range_years :: "(int \<rightharpoonup> yearlyFundData) \<Rightarrow> int list \<Rightarrow> YearlyAsset list" where
  "range_years yearlySummary [] = []"
| "range_years yearlySummary (year # ks) =
     (case yearlySummary year of
        None \<Rightarrow> range_years yearlySummary ks
      | Some data \<Rightarrow>
          \<lparr>Year = year,
           CurrentValueY = \<lfloor>CurrentValueSum data\<rfloor>,
           CurrentPLY = \<lfloor>CurrentValueSum data - BuyAmountSum data\<rfloor>\<rparr>
          # range_years yearlySummary ks)"

text \<open>\<^verbatim>\<open>sort.Slice(yearlyAssets, func(i, j) bool { return a[i].Year > a[j].Year })\<close>:
  the slice in descending order of \<^verbatim>\<open>Year\<close>.\<close>

definition sort_Slice_desc :: "YearlyAsset list \<Rightarrow> YearlyAsset list" where
  "sort_Slice_desc yearlyAssets = rev (sort_key Year yearlyAssets)"


text \<open>The handler from the delivered rows on, and the handler: \<open>currentDate\<close> is the local
  date of \<^verbatim>\<open>time.Now()\<close>, \<open>ks\<close> the order of the range loop over \<^verbatim>\<open>yearlySummary\<close>.\<close>

definition by_year_response ::
  "database \<Rightarrow> date \<Rightarrow> (int \<times> int \<times> int \<times> rat) list \<Rightarrow> int list \<Rightarrow> AssetsByYearResponse" where
  "by_year_response db currentDate rows ks =
     (let (yearlySummary, priceCache) =
             scan_years db currentDate rows (Map.empty, Map.empty);
          yearlyAssets = range_years yearlySummary ks
      in \<lparr>DateY = currentDate, Assets = sort_Slice_desc yearlyAssets\<rparr>)"

definition getAssetsByYearHandler ::
  "database \<Rightarrow> date \<Rightarrow> string \<Rightarrow> int list \<Rightarrow> http_error + AssetsByYearResponse" where
  "getAssetsByYearHandler db currentDate userID ks =
     (case db_Query db (yearly_rows db userID currentDate) of
        None \<Rightarrow> Inl StatusInternalServerError
      | Some rows \<Rightarrow> Inr (by_year_response db currentDate rows ks))"

section \<open>Notions for the statements\<close>




text \<open>The price rows the lookup may choose from: those of the fund, dated at or before
  the as-of date.\<close>

definition eligible :: "database \<Rightarrow> int \<Rightarrow> date \<Rightarrow> reference_price \<Rightarrow> bool" where
  "eligible db f d p = (p \<in> set (reference_prices db) \<and> rp_fund_id p = f \<and> rp_price_date p \<le> d)"

text \<open>
  The price a fund is valued at, if the lookup found one; the rows of a result that are
  valued; the value of a row at the resolved price.
\<close>

definition priced_at :: "database \<Rightarrow> date \<Rightarrow> int \<Rightarrow> bool" where
  "priced_at db d f =
     (case current_price_query db f d of Price x \<Rightarrow> True | ErrNoRows \<Rightarrow> False | ErrOther \<Rightarrow> False)"

definition price_at :: "database \<Rightarrow> date \<Rightarrow> int \<Rightarrow> rat" where
  "price_at db d f =
     (case current_price_query db f d of Price x \<Rightarrow> x | ErrNoRows \<Rightarrow> 0 | ErrOther \<Rightarrow> 0)"




definition key_value :: "database \<Rightarrow> date \<Rightarrow> (int \<rightharpoonup> Position) \<Rightarrow> int \<Rightarrow> rat" where
  "key_value db d m k =
     (case m k of None \<Rightarrow> 0
      | Some pos \<Rightarrow> (if priced_at db d (FundID pos)
                     then price_at db d (FundID pos) * of_int (TotalQuantity pos)
                            / UNIT_PER_PRICE_BASE
                     else 0))"

definition key_cost :: "database \<Rightarrow> date \<Rightarrow> (int \<rightharpoonup> Position) \<Rightarrow> int \<Rightarrow> rat" where
  "key_cost db d m k =
     (case m k of None \<Rightarrow> 0
      | Some pos \<Rightarrow> (if priced_at db d (FundID pos) then TotalBuyCost pos else 0))"

text \<open>The keys of the map that the range loop values, for the statement of C4.\<close>

definition valued :: "database \<Rightarrow> date \<Rightarrow> (int \<rightharpoonup> Position) \<Rightarrow> int \<Rightarrow> bool" where
  "valued db d m k =
     (case m k of None \<Rightarrow> False | Some pos \<Rightarrow> priced_at db d (FundID pos))"

text \<open>
  For the by-year statements: the rows of one purchase year that are valued, the value
  and cost of a row, and the loop body without the cache.
\<close>

definition cohort ::
  "database \<Rightarrow> date \<Rightarrow> (int \<times> int \<times> int \<times> rat) list \<Rightarrow> int \<Rightarrow> (int \<times> int \<times> int \<times> rat) list" where
  "cohort db d rows y = filter (\<lambda>(y', f, q, c). y' = y \<and> priced_at db d f) rows"

definition year_row_value :: "database \<Rightarrow> date \<Rightarrow> int \<times> int \<times> int \<times> rat \<Rightarrow> rat" where
  "year_row_value db d = (\<lambda>(y, f, q, c). price_at db d f * of_int q / UNIT_PER_PRICE_BASE)"

definition year_row_cost :: "int \<times> int \<times> int \<times> rat \<Rightarrow> rat" where
  "year_row_cost = (\<lambda>(y, f, q, c). c)"

definition year_step ::
  "database \<Rightarrow> date \<Rightarrow> int \<times> int \<times> int \<times> rat \<Rightarrow> (int \<rightharpoonup> yearlyFundData) \<Rightarrow> (int \<rightharpoonup> yearlyFundData)" where
  "year_step db d = (\<lambda>(y, f, q, c) ys.
     if priced_at db d f then add_to_year ys y (price_at db d f) q c else ys)"

definition cache_ok :: "database \<Rightarrow> date \<Rightarrow> (int \<rightharpoonup> rat) \<Rightarrow> bool" where
  "cache_ok db d cache = (\<forall>f x. cache f = Some x \<longrightarrow> current_price_query db f d = Price x)"

definition zero_or :: "yearlyFundData option \<Rightarrow> yearlyFundData" where
  "zero_or x = (case x of None \<Rightarrow> \<lparr>CurrentValueSum = 0, BuyAmountSum = 0\<rparr> | Some data \<Rightarrow> data)"

section \<open>Ledgers for the concrete instances\<close>

text \<open>
  A small ledger for the concrete instances. User u1 buys fund 1 in 2023 and in 2024,
  fund 2 on a day without a reference price, and fund 3 once; user u2 buys and sells
  the same quantity of fund 1.
\<close>

definition example_prices :: "reference_price list" where
  "example_prices =
     [\<lparr>rp_fund_id = 1, rp_price = 90, rp_price_date = (2023, 3, 5)\<rparr>,
      \<lparr>rp_fund_id = 1, rp_price = 100, rp_price_date = (2024, 1, 10)\<rparr>,
      \<lparr>rp_fund_id = 1, rp_price = 110, rp_price_date = (2024, 6, 1)\<rparr>,
      \<lparr>rp_fund_id = 2, rp_price = 10, rp_price_date = (2024, 2, 2)\<rparr>,
      \<lparr>rp_fund_id = 3, rp_price = 101 / 2, rp_price_date = (2024, 3, 1)\<rparr>]"

definition example_trades :: "trade_history list" where
  "example_trades =
     [\<lparr>th_user_id = ''u1'', th_fund_id = 1, th_quantity = 10000, th_trade_date = (2023, 3, 5)\<rparr>,
      \<lparr>th_user_id = ''u1'', th_fund_id = 1, th_quantity = 20000, th_trade_date = (2024, 1, 10)\<rparr>,
      \<lparr>th_user_id = ''u1'', th_fund_id = 2, th_quantity = 5000, th_trade_date = (2024, 2, 1)\<rparr>,
      \<lparr>th_user_id = ''u1'', th_fund_id = 3, th_quantity = 10000, th_trade_date = (2024, 3, 1)\<rparr>,
      \<lparr>th_user_id = ''u2'', th_fund_id = 1, th_quantity = 300, th_trade_date = (2024, 1, 10)\<rparr>,
      \<lparr>th_user_id = ''u2'', th_fund_id = 1, th_quantity = -300, th_trade_date = (2024, 6, 1)\<rparr>]"

definition example_db :: database where
  "example_db = \<lparr>trade_histories = example_trades, reference_prices = example_prices,
                  query_fails = False, rows_fail_after = None,
                  price_query_fails = (\<lambda>f. False)\<rparr>"

text \<open>
  A ledger with a small loss: on 2024-06-01 fund 1 is worth 99.7 against a cost of 100,
  fund 2 is worth its cost of 50.5.
\<close>

definition loss_db :: database where
  "loss_db =
     \<lparr>trade_histories =
        [\<lparr>th_user_id = ''u1'', th_fund_id = 1, th_quantity = 10000, th_trade_date = (2024, 1, 10)\<rparr>,
         \<lparr>th_user_id = ''u1'', th_fund_id = 2, th_quantity = 10000, th_trade_date = (2024, 1, 10)\<rparr>],
      reference_prices =
        [\<lparr>rp_fund_id = 1, rp_price = 100, rp_price_date = (2024, 1, 10)\<rparr>,
         \<lparr>rp_fund_id = 1, rp_price = 997 / 10, rp_price_date = (2024, 6, 1)\<rparr>,
         \<lparr>rp_fund_id = 2, rp_price = 101 / 2, rp_price_date = (2024, 1, 10)\<rparr>],
      query_fails = False, rows_fail_after = None, price_query_fails = (\<lambda>f. False)\<rparr>"

text \<open>
  A map of positions that holds fund 2 although, on 2024-02-01, the fund has no reference
  price yet (its first price is dated 2024-02-02): the state of the range loop when the
  price row is not there at the second query.
\<close>

definition stale_positions :: "int \<rightharpoonup> Position" where
  "stale_positions =
     [1 \<mapsto> \<lparr>FundID = 1, TotalQuantity = 20000, TotalBuyCost = 200\<rparr>,
      2 \<mapsto> \<lparr>FundID = 2, TotalQuantity = 5000, TotalBuyCost = 5\<rparr>]"



text \<open>
  Rows of the by-year result as the loop may meet them on 2024-02-01: a group of fund 1
  bought in 2024, and a group of fund 2 bought in 2023, a fund that has no reference
  price at or before that day.
\<close>

definition stale_year_rows :: "(int \<times> int \<times> int \<times> rat) list" where
  "stale_year_rows = [(2024, 1, 20000, 200), (2023, 2, 5000, 5)]"

section \<open>Properties\<close>

subsection \<open>The join and its aggregates\<close>














lemma example_pk: "pk_reference_prices example_db"
  by (simp add: pk_reference_prices_def example_db_def example_prices_def)

lemma example_joined_u1:
  "joined_rows example_db ''u1'' (2024, 12, 31) =
     [(example_trades ! 0, example_prices ! 0), (example_trades ! 1, example_prices ! 1),
      (example_trades ! 3, example_prices ! 4)]"
  by (simp add: joined_rows_def join_on_def example_db_def example_trades_def example_prices_def)

lemma example_year_groups_u1:
  "year_fund_groups example_db ''u1'' (2024, 12, 31)
     = [(2023, 1, 10000, 90), (2024, 1, 20000, 200), (2024, 3, 10000, 101 / 2)]"
  by (simp add: year_fund_groups_def example_joined_u1 sum_quantity_def sum_buy_cost_def
        UNIT_PER_PRICE_BASE_def example_trades_def example_prices_def YEAR_def)

lemma example_fund_groups_u1:
  "fund_groups example_db ''u1'' (2024, 12, 31) = [(1, 30000, 290), (3, 10000, 101 / 2)]"
  by (simp add: fund_groups_def example_joined_u1 sum_quantity_def sum_buy_cost_def
        UNIT_PER_PRICE_BASE_def example_trades_def example_prices_def)



subsection \<open>The price lookup\<close>

lemma sorted_snoc_max:
  assumes "sorted (map k (ys @ [p]))" and "x \<in> set (ys @ [p])"
  shows "k x \<le> k p"
  using assms by (auto simp: sorted_append)

lemma order_by_desc_head:
  assumes "order_by_price_date_desc ps = p # rest"
  shows "p \<in> set ps" and "\<forall>q \<in> set ps. rp_price_date q \<le> rp_price_date p"
proof -
  from assms have s: "sort_key rp_price_date ps = rev rest @ [p]"
    by (simp add: order_by_price_date_desc_def rev_swap)
  have "set (sort_key rp_price_date ps) = set ps" by simp
  with s have m: "set ps = set (rev rest @ [p])" by simp
  then show "p \<in> set ps" by simp
  have "sorted (map rp_price_date (rev rest @ [p]))"
    using sorted_sort_key [of rp_price_date ps] by (simp only: s)
  from sorted_snoc_max [OF this] m
  show "\<forall>q \<in> set ps. rp_price_date q \<le> rp_price_date p" by blast
qed

lemma order_by_desc_Nil: "(order_by_price_date_desc ps = []) = (ps = [])"
proof -
  have "length (order_by_price_date_desc ps) = length ps"
    by (simp add: order_by_price_date_desc_def)
  then show ?thesis by (metis length_0_conv)
qed

lemma set_filter_eligible:
  "set (filter (\<lambda>p. rp_fund_id p = f \<and> rp_price_date p \<le> d) (reference_prices db))
     = {p. eligible db f d p}"
  by (auto simp: eligible_def)

lemma current_price_query_Price:
  assumes "current_price_query db f d = Price x"
  shows "\<exists>p. eligible db f d p \<and> rp_price p = x \<and>
             (\<forall>q. eligible db f d q \<longrightarrow> rp_price_date q \<le> rp_price_date p)"
proof -
  let ?ps = "filter (\<lambda>p. rp_fund_id p = f \<and> rp_price_date p \<le> d) (reference_prices db)"
  from assms obtain p rest where o: "order_by_price_date_desc ?ps = p # rest" and x: "rp_price p = x"
    by (auto simp: current_price_query_def split: if_splits list.splits)
  from order_by_desc_head [OF o] have "p \<in> set ?ps"
    and "\<forall>q \<in> set ?ps. rp_price_date q \<le> rp_price_date p" by blast+
  then have "eligible db f d p" and "\<forall>q. eligible db f d q \<longrightarrow> rp_price_date q \<le> rp_price_date p"
    unfolding set_filter_eligible by blast+
  with x show ?thesis by blast
qed

lemma current_price_query_ErrNoRows:
  assumes "\<not> price_query_fails db f"
  shows "(current_price_query db f d = ErrNoRows) = (\<forall>q. \<not> eligible db f d q)"
proof -
  let ?ps = "filter (\<lambda>p. rp_fund_id p = f \<and> rp_price_date p \<le> d) (reference_prices db)"
  have "(current_price_query db f d = ErrNoRows) = (order_by_price_date_desc ?ps = [])"
    using assms by (simp add: current_price_query_def split: list.splits)
  also have "\<dots> = (?ps = [])" by (rule order_by_desc_Nil)
  also have "\<dots> = (set ?ps = {})" by (simp only: set_empty)
  also have "\<dots> = (\<forall>q. \<not> eligible db f d q)"
    unfolding set_filter_eligible by blast
  finally show ?thesis .
qed

lemma current_price_query_ErrOther:
  "(current_price_query db f d = ErrOther) = price_query_fails db f"
  by (simp add: current_price_query_def split: list.splits)

lemma pk_latest_unique:
  assumes pk: "pk_reference_prices db"
    and p: "eligible db f d p" "\<forall>q. eligible db f d q \<longrightarrow> rp_price_date q \<le> rp_price_date p"
    and p': "eligible db f d p'" "\<forall>q. eligible db f d q \<longrightarrow> rp_price_date q \<le> rp_price_date p'"
  shows "p' = p"
proof -
  from p p' have "rp_price_date p = rp_price_date p'" by (meson order_antisym)
  moreover from p(1) p'(1) have "rp_fund_id p = rp_fund_id p'" by (simp add: eligible_def)
  moreover from pk have "inj_on (\<lambda>p. (rp_fund_id p, rp_price_date p)) (set (reference_prices db))"
    by (simp add: pk_reference_prices_def distinct_map)
  moreover from p(1) p'(1) have "p \<in> set (reference_prices db)" "p' \<in> set (reference_prices db)"
    by (simp_all add: eligible_def)
  ultimately show ?thesis by (auto dest: inj_onD)
qed

text \<open>
  Claim C3. When the lookup returns a price, it is the price of a row of that fund
  dated at or before the as-of date, and no such row of the fund has a later date (so
  never a price after the as-of date); under the primary key that row is the only one
  with these properties. When the query itself does not fail, the lookup answers
  \<^verbatim>\<open>sql.ErrNoRows\<close> exactly when the fund has no row at or before the date, and never
  the other error.
\<close>

theorem current_price_is_latest_not_after:
  "(current_price_query db f d = Price x \<longrightarrow>
      (\<exists>p. eligible db f d p \<and> rp_price p = x \<and>
           (\<forall>q. eligible db f d q \<longrightarrow> rp_price_date q \<le> rp_price_date p) \<and>
           (pk_reference_prices db \<longrightarrow>
              (\<forall>p'. eligible db f d p' \<and>
                    (\<forall>q. eligible db f d q \<longrightarrow> rp_price_date q \<le> rp_price_date p')
                    \<longrightarrow> p' = p))))
   \<and> (\<not> price_query_fails db f \<longrightarrow>
        (current_price_query db f d = ErrNoRows) = (\<forall>q. \<not> eligible db f d q)
        \<and> current_price_query db f d \<noteq> ErrOther)"
proof (intro conjI impI)
  assume "current_price_query db f d = Price x"
  from current_price_query_Price [OF this] obtain p where
    p: "eligible db f d p" "rp_price p = x"
       "\<forall>q. eligible db f d q \<longrightarrow> rp_price_date q \<le> rp_price_date p"
    by blast
  have "pk_reference_prices db \<longrightarrow>
          (\<forall>p'. eligible db f d p' \<and>
                (\<forall>q. eligible db f d q \<longrightarrow> rp_price_date q \<le> rp_price_date p')
                \<longrightarrow> p' = p)"
    using pk_latest_unique [OF _ p(1) p(3)] by blast
  with p show "\<exists>p. eligible db f d p \<and> rp_price p = x \<and>
           (\<forall>q. eligible db f d q \<longrightarrow> rp_price_date q \<le> rp_price_date p) \<and>
           (pk_reference_prices db \<longrightarrow>
              (\<forall>p'. eligible db f d p' \<and>
                    (\<forall>q. eligible db f d q \<longrightarrow> rp_price_date q \<le> rp_price_date p')
                    \<longrightarrow> p' = p))"
    by blast
next
  assume "\<not> price_query_fails db f"
  then show "(current_price_query db f d = ErrNoRows) = (\<forall>q. \<not> eligible db f d q)"
    by (rule current_price_query_ErrNoRows)
next
  assume "\<not> price_query_fails db f"
  then show "current_price_query db f d \<noteq> ErrOther"
    by (simp add: current_price_query_ErrOther)
qed

lemma example_price_fund1:
  "current_price_query example_db 1 (2024, 3, 1) = Price 100"
  by (simp add: current_price_query_def order_by_price_date_desc_def example_db_def
        example_prices_def)

lemma example_price_fund2:
  "current_price_query example_db 2 (2024, 2, 1) = ErrNoRows"
  by (simp add: current_price_query_def order_by_price_date_desc_def example_db_def
        example_prices_def)

text \<open>The example: on 2024-03-01 fund 1 is priced at 100, the price of 2024-01-10 (not
  110, which is dated 2024-06-01); fund 2, first priced on 2024-02-02, has no row on
  2024-02-01.\<close>

theorem current_price_is_latest_not_after_witness:
  "current_price_query example_db 1 (2024, 3, 1) = Price 100
   \<and> (\<exists>p. eligible example_db 1 (2024, 3, 1) p \<and> rp_price p = 100 \<and>
          (\<forall>q. eligible example_db 1 (2024, 3, 1) q \<longrightarrow> rp_price_date q \<le> rp_price_date p) \<and>
          p = example_prices ! 1)
   \<and> pk_reference_prices example_db
   \<and> \<not> price_query_fails example_db 2
   \<and> current_price_query example_db 2 (2024, 2, 1) = ErrNoRows
   \<and> (\<forall>q. \<not> eligible example_db 2 (2024, 2, 1) q)"
proof -
  have nf: "\<not> price_query_fails example_db 2" by (simp add: example_db_def)
  have e: "eligible example_db 1 (2024, 3, 1) (example_prices ! 1)"
    by (simp add: eligible_def example_db_def example_prices_def)
  have mx: "\<forall>q. eligible example_db 1 (2024, 3, 1) q
              \<longrightarrow> rp_price_date q \<le> rp_price_date (example_prices ! 1)"
    by (auto simp: eligible_def example_db_def example_prices_def)
  from current_price_is_latest_not_after [of example_db 1 "(2024, 3, 1)" 100]
    example_price_fund1 example_pk
  obtain p where p: "eligible example_db 1 (2024, 3, 1) p" "rp_price p = 100"
      "\<forall>q. eligible example_db 1 (2024, 3, 1) q \<longrightarrow> rp_price_date q \<le> rp_price_date p"
      "\<forall>p'. eligible example_db 1 (2024, 3, 1) p' \<and>
            (\<forall>q. eligible example_db 1 (2024, 3, 1) q \<longrightarrow> rp_price_date q \<le> rp_price_date p')
            \<longrightarrow> p' = p"
    by blast
  from p(4) e mx have "example_prices ! 1 = p" by blast
  with p have a: "\<exists>p. eligible example_db 1 (2024, 3, 1) p \<and> rp_price p = 100 \<and>
          (\<forall>q. eligible example_db 1 (2024, 3, 1) q \<longrightarrow> rp_price_date q \<le> rp_price_date p) \<and>
          p = example_prices ! 1"
    by blast
  from current_price_is_latest_not_after [of example_db 2 "(2024, 2, 1)"] nf example_price_fund2
  have b: "\<forall>q. \<not> eligible example_db 2 (2024, 2, 1) q"
    by blast
  from a b nf example_pk example_price_fund1 example_price_fund2 show ?thesis by blast
qed

subsection \<open>The range loop of \<^verbatim>\<open>getAssetsHandler\<close>\<close>


lemma range_positions_sums:
  "range_positions db d m ks (v, b)
     = (v + (\<Sum>k\<leftarrow>ks. key_value db d m k), b + (\<Sum>k\<leftarrow>ks. key_cost db d m k))"
proof (induction ks arbitrary: v b)
  case Nil
  show ?case by simp
next
  case (Cons k ks)
  show ?case
  proof (cases "m k")
    case None
    then show ?thesis by (simp add: Cons.IH key_value_def key_cost_def)
  next
    case (Some pos)
    then show ?thesis
      by (cases "current_price_query db (FundID pos) d")
         (simp_all add: Cons.IH key_value_def key_cost_def priced_at_def price_at_def)
  qed
qed

lemma scan_positions_other:
  "f \<notin> fst ` set rows \<Longrightarrow> scan_positions rows m f = m f"
proof (induction rows arbitrary: m)
  case Nil
  show ?case by simp
next
  case (Cons r rows)
  obtain f' q' c' where r: "r = (f', q', c')" by (cases r)
  from Cons.prems r have ne: "f \<noteq> f'" and nin: "f \<notin> fst ` set rows" by auto
  show ?case by (simp add: r Cons.IH [OF nin] ne)
qed

lemma scan_positions_row:
  "distinct (map fst rows) \<Longrightarrow> (f, q, c) \<in> set rows \<Longrightarrow>
     scan_positions rows m f = Some \<lparr>FundID = f, TotalQuantity = q, TotalBuyCost = c\<rparr>"
proof (induction rows arbitrary: m)
  case Nil
  then show ?case by simp
next
  case (Cons r rows)
  obtain f' q' c' where r: "r = (f', q', c')" by (cases r)
  show ?case
  proof (cases "(f, q, c) = r")
    case True
    with Cons.prems r have "f \<notin> fst ` set rows" by auto
    from scan_positions_other [OF this] True r show ?thesis by simp
  next
    case False
    with Cons.prems have "(f, q, c) \<in> set rows" "distinct (map fst rows)" by auto
    from Cons.IH [OF this(2) this(1)] show ?thesis by (simp add: r)
  qed
qed

lemma dom_scan_positions: "dom (scan_positions rows m) = dom m \<union> fst ` set rows"
proof (induction rows arbitrary: m)
  case Nil
  show ?case by simp
next
  case (Cons r rows)
  obtain f' q' c' where r: "r = (f', q', c')" by (cases r)
  let ?m = "m(f' \<mapsto> \<lparr>FundID = f', TotalQuantity = q', TotalBuyCost = c'\<rparr>)"
  have "dom (scan_positions (r # rows) m) = dom (scan_positions rows ?m)" by (simp add: r)
  also have "\<dots> = dom ?m \<union> fst ` set rows" by (rule Cons.IH)
  also have "\<dots> = dom m \<union> fst ` set (r # rows)" by (simp add: r)
  finally show ?case .
qed

lemma scan_positions_FundID:
  "(\<forall>k pos. m k = Some pos \<longrightarrow> FundID pos = k) \<Longrightarrow>
     scan_positions rows m k = Some pos \<Longrightarrow> FundID pos = k"
proof (induction rows arbitrary: m)
  case Nil
  then show ?case by simp
next
  case (Cons r rows)
  obtain f' q' c' where r: "r = (f', q', c')" by (cases r)
  let ?m = "m(f' \<mapsto> \<lparr>FundID = f', TotalQuantity = q', TotalBuyCost = c'\<rparr>)"
  from Cons.prems(1) have "\<forall>k pos. ?m k = Some pos \<longrightarrow> FundID pos = k" by auto
  moreover from Cons.prems(2) have "scan_positions rows ?m k = Some pos" by (simp add: r)
  ultimately show ?case by (rule Cons.IH)
qed


lemma sum_list_if_filter:
  "(\<Sum>x\<leftarrow>xs. if P x then g x else (0::rat)) = (\<Sum>x\<leftarrow>filter P xs. g x)"
  by (induction xs) auto


lemma distinct_fund_groups: "distinct (map fst (fund_groups db u d))"
  by (simp add: fund_groups_def Let_def comp_def)

lemma distinct_positions_rows: "distinct (map fst (positions_rows db u d))"
  unfolding positions_rows_def by (rule distinct_map_filter) (rule distinct_fund_groups)

lemma distinct_delivered:
  "distinct (map k rows) \<Longrightarrow> distinct (map k (delivered db rows))"
  by (simp add: delivered_def take_map [symmetric] split: option.splits)


lemma handler_success:
  assumes "dateStr \<noteq> BadDate" and "\<not> query_fails db"
  shows "getAssetsHandler db now u dateStr ks
           = Inr (assets_response db (target_date now dateStr)
                    (positions_of db u (target_date now dateStr)) ks)"
  using assms by (simp add: getAssetsHandler_def db_Query_def positions_of_def Let_def)


lemma range_positions_skip:
  assumes "m f = Some pos" and "\<not> priced_at db d (FundID pos)"
  shows "range_positions db d m ks acc = range_positions db d (m(f := None)) ks acc"
proof -
  obtain v b where acc: "acc = (v, b)" by (cases acc)
  have "key_value db d m k = key_value db d (m(f := None)) k"
    and "key_cost db d m k = key_cost db d (m(f := None)) k" for k
    using assms by (auto simp: key_value_def key_cost_def)
  then show ?thesis by (simp add: acc range_positions_sums)
qed

lemma range_positions_valued:
  "range_positions db d m ks (0, 0)
     = ((\<Sum>k\<leftarrow>filter (valued db d m) ks.
           price_at db d (FundID (the (m k))) * of_int (TotalQuantity (the (m k)))
             / UNIT_PER_PRICE_BASE),
        (\<Sum>k\<leftarrow>filter (valued db d m) ks. TotalBuyCost (the (m k))))"
proof -
  have v: "key_value db d m k
         = (if valued db d m k
            then price_at db d (FundID (the (m k))) * of_int (TotalQuantity (the (m k)))
                   / UNIT_PER_PRICE_BASE
            else 0)" for k
    by (auto simp: key_value_def valued_def split: option.splits)
  have c: "key_cost db d m k = (if valued db d m k then TotalBuyCost (the (m k)) else 0)" for k
    by (auto simp: key_cost_def valued_def split: option.splits)
  show ?thesis by (simp add: range_positions_sums v c sum_list_if_filter)
qed














subsection \<open>Price lookups that find nothing, or fail\<close>

lemma assets_response_skip:
  assumes "m f = Some pos" and "FundID pos = f" and "\<not> priced_at db d f"
  shows "assets_response db d m ks = assets_response db d (m(f := None)) ks"
  using range_positions_skip [of m f pos db d ks "(0, 0)"] assms
  by (simp add: assets_response_def)

text \<open>
  Claim C4. A position whose price lookup answers \<^verbatim>\<open>sql.ErrNoRows\<close> is skipped by the
  range loop: the response is the one computed from the map without that fund. The two
  totals of the loop are sums over one and the same list of keys, those whose lookup
  found a price. And no outcome of a price lookup fails the request: with a well-formed
  date and a position query that succeeds, the handler answers with the body.
\<close>

theorem unpriced_position_is_skipped:
  "(m f = Some pos \<and> FundID pos = f \<and> current_price_query db f d = ErrNoRows \<longrightarrow>
      assets_response db d m ks = assets_response db d (m(f := None)) ks)
   \<and> range_positions db d m ks (0, 0)
       = ((\<Sum>k\<leftarrow>filter (valued db d m) ks.
             price_at db d (FundID (the (m k))) * of_int (TotalQuantity (the (m k)))
               / UNIT_PER_PRICE_BASE),
          (\<Sum>k\<leftarrow>filter (valued db d m) ks. TotalBuyCost (the (m k))))
   \<and> (dateStr \<noteq> BadDate \<and> \<not> query_fails db \<longrightarrow>
        getAssetsHandler db now u dateStr ks
          = Inr (assets_response db (target_date now dateStr)
                   (positions_of db u (target_date now dateStr)) ks))"
proof (intro conjI impI)
  assume a: "m f = Some pos \<and> FundID pos = f \<and> current_price_query db f d = ErrNoRows"
  then have "\<not> priced_at db d f" by (simp add: priced_at_def)
  with a show "assets_response db d m ks = assets_response db d (m(f := None)) ks"
    by (blast intro: assets_response_skip)
next
  show "range_positions db d m ks (0, 0)
       = ((\<Sum>k\<leftarrow>filter (valued db d m) ks.
             price_at db d (FundID (the (m k))) * of_int (TotalQuantity (the (m k)))
               / UNIT_PER_PRICE_BASE),
          (\<Sum>k\<leftarrow>filter (valued db d m) ks. TotalBuyCost (the (m k))))"
    by (rule range_positions_valued)
next
  assume "dateStr \<noteq> BadDate \<and> \<not> query_fails db"
  then show "getAssetsHandler db now u dateStr ks
          = Inr (assets_response db (target_date now dateStr)
                   (positions_of db u (target_date now dateStr)) ks)"
    by (simp add: handler_success)
qed

lemma example_price_fund1_feb:
  "current_price_query example_db 1 (2024, 2, 1) = Price 100"
  by (simp add: current_price_query_def order_by_price_date_desc_def example_db_def
        example_prices_def)

lemma stale_response:
  "assets_response example_db (2024, 2, 1) stale_positions [1, 2]
     = \<lparr>Date = (2024, 2, 1), CurrentValue = 200, CurrentPL = 0\<rparr>"
  by (simp add: assets_response_def stale_positions_def example_price_fund1_feb
        example_price_fund2 UNIT_PER_PRICE_BASE_def)

text \<open>The stale map on 2024-02-01: fund 2 adds neither its value nor its cost of 5, and
  the response is that of fund 1 alone.\<close>

theorem unpriced_position_is_skipped_witness:
  "stale_positions 2 = Some \<lparr>FundID = 2, TotalQuantity = 5000, TotalBuyCost = 5\<rparr>
   \<and> current_price_query example_db 2 (2024, 2, 1) = ErrNoRows
   \<and> assets_response example_db (2024, 2, 1) (stale_positions(2 := None)) [1, 2]
       = \<lparr>Date = (2024, 2, 1), CurrentValue = 200, CurrentPL = 0\<rparr>
   \<and> NoDate \<noteq> BadDate \<and> \<not> query_fails example_db
   \<and> getAssetsHandler example_db (2024, 2, 1) ''u1'' NoDate [1]
       = Inr (assets_response example_db (target_date (2024, 2, 1) NoDate)
                (positions_of example_db ''u1'' (target_date (2024, 2, 1) NoDate)) [1])"
proof -
  have p: "stale_positions 2 = Some \<lparr>FundID = 2, TotalQuantity = 5000, TotalBuyCost = 5\<rparr>"
    by (simp add: stale_positions_def)
  have q: "\<not> query_fails example_db" by (simp add: example_db_def)
  note t = unpriced_position_is_skipped
             [of stale_positions 2 "\<lparr>FundID = 2, TotalQuantity = 5000, TotalBuyCost = 5\<rparr>"
                 example_db "(2024, 2, 1)" "[1, 2]" NoDate "(2024, 2, 1)" "''u1''"]
  from t p example_price_fund2
  have "assets_response example_db (2024, 2, 1) stale_positions [1, 2]
          = assets_response example_db (2024, 2, 1) (stale_positions(2 := None)) [1, 2]"
    by simp
  with stale_response
  have a: "assets_response example_db (2024, 2, 1) (stale_positions(2 := None)) [1, 2]
       = \<lparr>Date = (2024, 2, 1), CurrentValue = 200, CurrentPL = 0\<rparr>"
    by simp
  from unpriced_position_is_skipped
         [of stale_positions 2 "\<lparr>FundID = 2, TotalQuantity = 5000, TotalBuyCost = 5\<rparr>"
             example_db "(2024, 2, 1)" "[1]" NoDate "(2024, 2, 1)" "''u1''"] q
  have b: "getAssetsHandler example_db (2024, 2, 1) ''u1'' NoDate [1]
       = Inr (assets_response example_db (target_date (2024, 2, 1) NoDate)
                (positions_of example_db ''u1'' (target_date (2024, 2, 1) NoDate)) [1])"
    by simp
  from p example_price_fund2 a q b show ?thesis by simp
qed




lemma example_rows_dec:
  "positions_rows example_db ''u1'' (2024, 12, 31) = [(1, 30000, 290), (3, 10000, 101 / 2)]"
  by (simp add: positions_rows_def example_fund_groups_u1)

lemma example_healthy:
  "delivered example_db rows = rows" "\<not> query_fails example_db"
  by (simp_all add: delivered_def example_db_def)







subsection \<open>The loops of \<^verbatim>\<open>getAssetsByYearHandler\<close>\<close>

lemma scan_years_fold:
  "cache_ok db d cache \<Longrightarrow>
     fst (scan_years db d rows (ys, cache)) = fold (year_step db d) rows ys"
proof (induction rows arbitrary: ys cache)
  case Nil
  show ?case by simp
next
  case (Cons r rows)
  obtain y f q c where r: "r = (y, f, q, c)" by (cases r) auto
  have skip: "fst (scan_years db d rows (ys, cache)) = fold (year_step db d) (r # rows) ys"
    if "year_step db d r ys = ys"
    using that Cons.IH [OF Cons.prems, of ys] by simp
  show ?case
  proof (cases "cache f")
    case (Some x)
    with Cons.prems have "current_price_query db f d = Price x" by (simp add: cache_ok_def)
    then have st: "year_step db d r ys = add_to_year ys y x q c"
      by (simp add: year_step_def r priced_at_def price_at_def)
    have "scan_years db d (r # rows) (ys, cache)
            = scan_years db d rows (add_to_year ys y x q c, cache)"
      using Some by (simp add: r)
    then show ?thesis
      using Cons.IH [OF Cons.prems, of "add_to_year ys y x q c"] st by simp
  next
    case None
    show ?thesis
    proof (cases "current_price_query db f d")
      case (Price x)
      have ok: "cache_ok db d (cache(f \<mapsto> x))"
        using Cons.prems Price by (simp add: cache_ok_def)
      have st: "year_step db d r ys = add_to_year ys y x q c"
        using Price by (simp add: year_step_def r priced_at_def price_at_def)
      have "scan_years db d (r # rows) (ys, cache)
              = scan_years db d rows (add_to_year ys y x q c, cache(f \<mapsto> x))"
        using None Price by (simp add: r)
      then show ?thesis
        using Cons.IH [OF ok, of "add_to_year ys y x q c"] st by (simp del: fun_upd_apply)
    next
      case ErrNoRows
      then have "year_step db d r ys = ys" by (simp add: year_step_def r priced_at_def)
      from skip [OF this] None ErrNoRows show ?thesis by (simp add: r)
    next
      case ErrOther
      then have "year_step db d r ys = ys" by (simp add: year_step_def r priced_at_def)
      from skip [OF this] None ErrOther show ?thesis by (simp add: r)
    qed
  qed
qed

lemma scan_years_empty:
  "fst (scan_years db d rows (Map.empty, Map.empty)) = fold (year_step db d) rows Map.empty"
  by (rule scan_years_fold) (simp add: cache_ok_def)

lemma add_to_year_same:
  "add_to_year ys y x q c y
     = Some \<lparr>CurrentValueSum = CurrentValueSum (zero_or (ys y)) + x * of_int q / UNIT_PER_PRICE_BASE,
             BuyAmountSum = BuyAmountSum (zero_or (ys y)) + c\<rparr>"
  by (simp add: add_to_year_def zero_or_def Let_def split: option.splits)

lemma add_to_year_other: "y' \<noteq> y \<Longrightarrow> add_to_year ys y' x q c y = ys y"
  by (simp add: add_to_year_def Let_def)

lemma fold_year_step:
  "fold (year_step db d) rows ys y
     = (if cohort db d rows y = [] then ys y
        else Some \<lparr>CurrentValueSum = CurrentValueSum (zero_or (ys y))
                                      + (\<Sum>r\<leftarrow>cohort db d rows y. year_row_value db d r),
                   BuyAmountSum = BuyAmountSum (zero_or (ys y))
                                   + (\<Sum>r\<leftarrow>cohort db d rows y. year_row_cost r)\<rparr>)"
proof (induction rows arbitrary: ys)
  case Nil
  show ?case by (simp add: cohort_def)
next
  case (Cons r rows)
  obtain y' f q c where r: "r = (y', f, q, c)" by (cases r) auto
  show ?case
  proof (cases "y' = y \<and> priced_at db d f")
    case True
    then have co: "cohort db d (r # rows) y = r # cohort db d rows y"
      by (simp add: cohort_def r)
    have rv: "year_row_value db d r = price_at db d f * of_int q / UNIT_PER_PRICE_BASE"
      and rc: "year_row_cost r = c"
      by (simp_all add: year_row_value_def year_row_cost_def r)
    let ?ys = "add_to_year ys y (price_at db d f) q c"
    from True have st: "year_step db d r ys = ?ys"
      by (simp add: year_step_def r)
    have z: "zero_or (?ys y)
               = \<lparr>CurrentValueSum = CurrentValueSum (zero_or (ys y)) + year_row_value db d r,
                  BuyAmountSum = BuyAmountSum (zero_or (ys y)) + year_row_cost r\<rparr>"
      by (simp add: add_to_year_same rv rc) (simp add: zero_or_def)
    have "fold (year_step db d) (r # rows) ys y = fold (year_step db d) rows ?ys y"
      by (simp add: st)
    also have "\<dots> = (if cohort db d rows y = [] then ?ys y
        else Some \<lparr>CurrentValueSum = CurrentValueSum (zero_or (?ys y))
                                      + (\<Sum>r\<leftarrow>cohort db d rows y. year_row_value db d r),
                   BuyAmountSum = BuyAmountSum (zero_or (?ys y))
                                   + (\<Sum>r\<leftarrow>cohort db d rows y. year_row_cost r)\<rparr>)"
      by (rule Cons.IH)
    also have "\<dots> = Some \<lparr>CurrentValueSum = CurrentValueSum (zero_or (ys y))
                                      + (\<Sum>r\<leftarrow>cohort db d (r # rows) y. year_row_value db d r),
                   BuyAmountSum = BuyAmountSum (zero_or (ys y))
                                   + (\<Sum>r\<leftarrow>cohort db d (r # rows) y. year_row_cost r)\<rparr>"
      unfolding co z by (simp add: add_to_year_same rv rc)
    finally show ?thesis unfolding co by simp
  next
    case False
    then have co: "cohort db d (r # rows) y = cohort db d rows y"
      by (auto simp: cohort_def r)
    from False have "year_step db d r ys y = ys y"
      by (auto simp: year_step_def r add_to_year_other)
    then have "zero_or (year_step db d r ys y) = zero_or (ys y)" by simp
    with \<open>year_step db d r ys y = ys y\<close> show ?thesis
      unfolding co by (simp add: Cons.IH [of "year_step db d r ys"])
  qed
qed

lemma summary_lookup:
  "fst (scan_years db d rows (Map.empty, Map.empty)) y
     = (if cohort db d rows y = [] then None
        else Some \<lparr>CurrentValueSum = (\<Sum>r\<leftarrow>cohort db d rows y. year_row_value db d r),
                   BuyAmountSum = (\<Sum>r\<leftarrow>cohort db d rows y. year_row_cost r)\<rparr>)"
  by (simp add: scan_years_empty fold_year_step zero_or_def)

lemma year_step_unpriced:
  "\<not> priced_at db d f \<Longrightarrow> year_step db d (y, f, q, c) ys = ys"
  by (simp add: year_step_def)

lemma Year_range_years: "map Year (range_years ys ks) = filter (\<lambda>y. ys y \<noteq> None) ks"
  by (induction ks) (auto split: option.splits)



lemma set_sort_Slice_desc: "set (sort_Slice_desc xs) = set xs"
  by (simp add: sort_Slice_desc_def)

lemma by_year_response_alt:
  "by_year_response db d rows ks
     = \<lparr>DateY = d,
        Assets = sort_Slice_desc
                   (range_years (fst (scan_years db d rows (Map.empty, Map.empty))) ks)\<rparr>"
  by (simp add: by_year_response_def split: prod.splits)


lemma byYear_response:
  assumes "\<not> query_fails db"
  shows "getAssetsByYearHandler db d u ks
           = Inr (by_year_response db d (delivered db (yearly_rows db u d)) ks)"
  using assms by (simp add: getAssetsByYearHandler_def db_Query_def)

lemma range_years_all:
  assumes "range_order ks ys"
  shows "map Year (range_years ys ks) = ks"
proof -
  from assms have "\<forall>y \<in> set ks. ys y \<noteq> None" by (auto simp: range_order_def)
  then show ?thesis by (simp add: Year_range_years)
qed

lemma dom_summary:
  "dom (fst (scan_years db d rows (Map.empty, Map.empty))) = {y. cohort db d rows y \<noteq> []}"
  by (auto simp: summary_lookup split: if_splits)

lemma cohort_nonempty:
  "(cohort db d rows y \<noteq> []) = (\<exists>f q c. (y, f, q, c) \<in> set rows \<and> priced_at db d f)"
  by (auto simp: cohort_def filter_empty_conv)


lemma example_yearly_rows:
  "yearly_rows example_db ''u1'' (2024, 12, 31)
     = [(2023, 1, 10000, 90), (2024, 1, 20000, 200), (2024, 3, 10000, 101 / 2)]"
  by (simp add: yearly_rows_def example_year_groups_u1)




text \<open>
  Claim C10. In the by-year loop a row whose fund has no reference price at or before
  today changes nothing: the body is the one computed without that row. The request
  succeeds whenever the query does. A year is listed exactly when one of its rows is
  valued, so a year all of whose rows are skipped is not in the list.
\<close>

theorem by_year_unpriced_group_skipped:
  "(current_price_query db f d = ErrNoRows \<longrightarrow>
      by_year_response db d (xs @ (y, f, q, c) # zs) ks = by_year_response db d (xs @ zs) ks)
   \<and> (\<not> query_fails db \<longrightarrow>
        getAssetsByYearHandler db d u ks
          = Inr (by_year_response db d (delivered db (yearly_rows db u d)) ks))
   \<and> (range_order ks (fst (scan_years db d rows (Map.empty, Map.empty))) \<longrightarrow>
        (y' \<in> Year ` set (Assets (by_year_response db d rows ks)))
          = (\<exists>f' q' c'. (y', f', q', c') \<in> set rows \<and> priced_at db d f'))"
proof (intro conjI impI)
  assume "current_price_query db f d = ErrNoRows"
  then have "\<not> priced_at db d f" by (simp add: priced_at_def)
  then have "fold (year_step db d) (xs @ (y, f, q, c) # zs) Map.empty
               = fold (year_step db d) (xs @ zs) Map.empty"
    by (simp add: year_step_unpriced)
  then show "by_year_response db d (xs @ (y, f, q, c) # zs) ks
               = by_year_response db d (xs @ zs) ks"
    by (simp only: by_year_response_alt scan_years_empty)
next
  assume "\<not> query_fails db"
  then show "getAssetsByYearHandler db d u ks
          = Inr (by_year_response db d (delivered db (yearly_rows db u d)) ks)"
    by (rule byYear_response)
next
  let ?S = "fst (scan_years db d rows (Map.empty, Map.empty))"
  assume o: "range_order ks ?S"
  have "Year ` set (Assets (by_year_response db d rows ks)) = set (map Year (range_years ?S ks))"
    by (simp add: by_year_response_alt set_sort_Slice_desc)
  also have "\<dots> = dom ?S" using o by (simp only: range_years_all [OF o]) (simp add: range_order_def)
  also have "\<dots> = {y. cohort db d rows y \<noteq> []}" by (rule dom_summary)
  finally show "(y' \<in> Year ` set (Assets (by_year_response db d rows ks)))
          = (\<exists>f' q' c'. (y', f', q', c') \<in> set rows \<and> priced_at db d f')"
    by (simp add: cohort_nonempty)
qed

lemma stale_year_summary:
  "fst (scan_years example_db (2024, 2, 1) stale_year_rows (Map.empty, Map.empty))
     = [2024 \<mapsto> \<lparr>CurrentValueSum = 200, BuyAmountSum = 200\<rparr>]"
  by (simp add: stale_year_rows_def example_price_fund1_feb example_price_fund2
        add_to_year_def UNIT_PER_PRICE_BASE_def)

text \<open>The stale rows on 2024-02-01: the group of fund 2 in 2023 is skipped, the body is
  that of the 2024 row alone, and 2023 is not listed.\<close>

theorem by_year_unpriced_group_skipped_witness:
  "current_price_query example_db 2 (2024, 2, 1) = ErrNoRows
   \<and> by_year_response example_db (2024, 2, 1) ([(2024, 1, 20000, 200)] @ (2023, 2, 5000, 5) # []) [2024]
       = by_year_response example_db (2024, 2, 1) ([(2024, 1, 20000, 200)] @ []) [2024]
   \<and> \<not> query_fails example_db
   \<and> (\<exists>r. getAssetsByYearHandler example_db (2024, 2, 1) ''u1'' [2024] = Inr r)
   \<and> range_order [2024] (fst (scan_years example_db (2024, 2, 1) stale_year_rows (Map.empty, Map.empty)))
   \<and> 2023 \<notin> Year ` set (Assets (by_year_response example_db (2024, 2, 1) stale_year_rows [2024]))
   \<and> 2024 \<in> Year ` set (Assets (by_year_response example_db (2024, 2, 1) stale_year_rows [2024]))"
proof -
  have o: "range_order [2024]
             (fst (scan_years example_db (2024, 2, 1) stale_year_rows (Map.empty, Map.empty)))"
    by (simp add: stale_year_summary range_order_def)
  have p: "priced_at example_db (2024, 2, 1) 1" "\<not> priced_at example_db (2024, 2, 1) 2"
    by (simp_all add: priced_at_def example_price_fund1_feb example_price_fund2)
  note t = by_year_unpriced_group_skipped
      [of example_db 2 "(2024, 2, 1)" "[(2024, 1, 20000, 200)]" 2023 5000 5 "[]" "[2024]" "''u1''"
          stale_year_rows]
  from t example_price_fund2
  have a: "by_year_response example_db (2024, 2, 1) ([(2024, 1, 20000, 200)] @ (2023, 2, 5000, 5) # []) [2024]
       = by_year_response example_db (2024, 2, 1) ([(2024, 1, 20000, 200)] @ []) [2024]"
    by blast
  from t example_healthy(2)
  have b: "\<exists>r. getAssetsByYearHandler example_db (2024, 2, 1) ''u1'' [2024] = Inr r"
    by blast
  from t [of 2023] o p
  have c: "2023 \<notin> Year ` set (Assets (by_year_response example_db (2024, 2, 1) stale_year_rows [2024]))"
    by (simp add: stale_year_rows_def)
  from t [of 2024] o p
  have d: "2024 \<in> Year ` set (Assets (by_year_response example_db (2024, 2, 1) stale_year_rows [2024]))"
    by (simp add: stale_year_rows_def)
  from example_price_fund2 a example_healthy(2) b o c d show ?thesis by blast
qed

subsection \<open>Groups without a positive total\<close>

lemma key_unique:
  assumes "distinct (map k xs)" and "x \<in> set xs" and "x' \<in> set xs" and "k x = k x'"
  shows "x = x'"
  using assms by (auto simp: distinct_map dest: inj_onD)

lemma set_delivered: "set (delivered db rows) \<subseteq> set rows"
  by (auto simp: delivered_def split: option.splits dest: in_set_takeD)

lemma positions_rows_positive: "(f, q, c) \<in> set (positions_rows db u d) \<Longrightarrow> q > 0"
  by (simp add: positions_rows_def)

lemma yearly_rows_positive: "(y, f, q, c) \<in> set (yearly_rows db u d) \<Longrightarrow> q > 0"
  by (simp add: yearly_rows_def)

lemma distinct_year_fund_groups:
  "distinct (map (\<lambda>(y, f, q, c). (y, f)) (year_fund_groups db u d))"
proof -
  have "map (\<lambda>(y, f, q, c). (y, f)) (year_fund_groups db u d)
          = remdups (map (\<lambda>(t, p). (YEAR (th_trade_date t), th_fund_id t)) (joined_rows db u d))"
    by (simp add: year_fund_groups_def Let_def comp_def case_prod_beta)
  then show ?thesis by simp
qed

lemma nonpositive_fund_no_position:
  assumes g: "(f, q, c) \<in> set (fund_groups db u d)" and q: "q \<le> 0"
  shows "positions_of db u d f = None"
proof (rule ccontr)
  assume "positions_of db u d f \<noteq> None"
  then have "f \<in> dom (positions_of db u d)" by auto
  then have "f \<in> fst ` set (delivered db (positions_rows db u d))"
    by (simp add: positions_of_def dom_scan_positions)
  then obtain row where row: "row \<in> set (delivered db (positions_rows db u d))" "fst row = f"
    by (auto simp: image_iff)
  obtain q' c' where "row = (f, q', c')" using row(2) by (cases row) auto
  with set_delivered [THEN subsetD, OF row(1)]
  have r: "(f, q', c') \<in> set (positions_rows db u d)" by simp
  then have pos: "q' > 0" by (rule positions_rows_positive)
  from r have "(f, q', c') \<in> set (fund_groups db u d)" by (simp add: positions_rows_def)
  from key_unique [OF distinct_fund_groups g this] have "q = q'" by simp
  with q pos show False by simp
qed

lemma position_positive:
  assumes "positions_of db u d f = Some pos"
  shows "TotalQuantity pos > 0"
proof -
  let ?rows = "delivered db (positions_rows db u d)"
  from assms have "f \<in> dom (positions_of db u d)" by auto
  then have "f \<in> fst ` set ?rows" by (simp add: positions_of_def dom_scan_positions)
  then obtain row where row: "row \<in> set ?rows" "fst row = f"
    by (auto simp: image_iff)
  obtain q c where "row = (f, q, c)" using row(2) by (cases row) auto
  with row(1) have r: "(f, q, c) \<in> set ?rows" by simp
  have "distinct (map fst ?rows)" by (rule distinct_delivered) (rule distinct_positions_rows)
  from scan_positions_row [OF this r, of Map.empty] assms
  have "pos = \<lparr>FundID = f, TotalQuantity = q, TotalBuyCost = c\<rparr>"
    by (simp add: positions_of_def)
  moreover from set_delivered [THEN subsetD, OF r]
  have "q > 0" by (rule positions_rows_positive)
  ultimately show ?thesis by simp
qed

lemma nonpositive_group_no_row:
  assumes g: "(y, f, q, c) \<in> set (year_fund_groups db u d)" and q: "q \<le> 0"
  shows "(y, f, q', c') \<notin> set (delivered db (yearly_rows db u d))"
proof
  assume "(y, f, q', c') \<in> set (delivered db (yearly_rows db u d))"
  from set_delivered [THEN subsetD, OF this]
  have r: "(y, f, q', c') \<in> set (yearly_rows db u d)" .
  then have pos: "q' > 0" by (rule yearly_rows_positive)
  from r have "(y, f, q', c') \<in> set (year_fund_groups db u d)" by (simp add: yearly_rows_def)
  from key_unique [OF distinct_year_fund_groups g this] have "q = q'" by simp
  with q pos show False by simp
qed

text \<open>
  Claim C7. A fund whose aggregated \<^verbatim>\<open>total_quantity\<close> is not positive has no entry in
  the map of positions that \<^verbatim>\<open>/{user_id}/assets\<close> values, and every position of that map
  has a positive quantity; a (year, fund) group whose total is not positive has no row
  among those the by-year loop reads, and every row it reads has a positive quantity.
\<close>

theorem nonpositive_totals_never_valued:
  "(\<forall>f q c. (f, q, c) \<in> set (fund_groups db u d) \<and> q \<le> 0 \<longrightarrow> positions_of db u d f = None)
   \<and> (\<forall>f pos. positions_of db u d f = Some pos \<longrightarrow> TotalQuantity pos > 0)
   \<and> (\<forall>y f q c q' c'. (y, f, q, c) \<in> set (year_fund_groups db u d) \<and> q \<le> 0 \<longrightarrow>
         (y, f, q', c') \<notin> set (delivered db (yearly_rows db u d)))
   \<and> (\<forall>y f q c. (y, f, q, c) \<in> set (delivered db (yearly_rows db u d)) \<longrightarrow> q > 0)"
proof (intro conjI allI impI)
  fix f q c
  assume "(f, q, c) \<in> set (fund_groups db u d) \<and> q \<le> 0"
  then show "positions_of db u d f = None" by (blast intro: nonpositive_fund_no_position)
next
  fix f pos
  assume "positions_of db u d f = Some pos"
  then show "TotalQuantity pos > 0" by (rule position_positive)
next
  fix y f q c q' c'
  assume "(y, f, q, c) \<in> set (year_fund_groups db u d) \<and> q \<le> 0"
  then have "(y, f, q, c) \<in> set (year_fund_groups db u d)" and "q \<le> 0" by simp_all
  then show "(y, f, q', c') \<notin> set (delivered db (yearly_rows db u d))"
    by (rule nonpositive_group_no_row)
next
  fix y f q c
  assume "(y, f, q, c) \<in> set (delivered db (yearly_rows db u d))"
  from set_delivered [THEN subsetD, OF this]
  show "q > 0" by (rule yearly_rows_positive)
qed

lemma example_joined_u2:
  "joined_rows example_db ''u2'' (2024, 12, 31) =
     [(example_trades ! 4, example_prices ! 1), (example_trades ! 5, example_prices ! 2)]"
  by (simp add: joined_rows_def join_on_def example_db_def example_trades_def example_prices_def)

lemma example_groups_u2:
  "fund_groups example_db ''u2'' (2024, 12, 31) = [(1, 0, - (3 / 10))]"
  "year_fund_groups example_db ''u2'' (2024, 12, 31) = [(2024, 1, 0, - (3 / 10))]"
  by (simp_all add: fund_groups_def year_fund_groups_def example_joined_u2 sum_quantity_def
        sum_buy_cost_def UNIT_PER_PRICE_BASE_def example_trades_def example_prices_def YEAR_def)

text \<open>The example: user u2 bought and sold 300 units of fund 1, so the total of the
  group is 0; the fund has no position, the by-year loop reads no row, and both bodies
  are empty of it.\<close>

theorem nonpositive_totals_never_valued_witness:
  "(1, 0, - (3 / 10)) \<in> set (fund_groups example_db ''u2'' (2024, 12, 31))
   \<and> positions_of example_db ''u2'' (2024, 12, 31) 1 = None
   \<and> (2024, 1, 0, - (3 / 10)) \<in> set (year_fund_groups example_db ''u2'' (2024, 12, 31))
   \<and> (2024, 1, 0, - (3 / 10)) \<notin> set (delivered example_db (yearly_rows example_db ''u2'' (2024, 12, 31)))
   \<and> positions_of example_db ''u1'' (2024, 12, 31) 1
       = Some \<lparr>FundID = 1, TotalQuantity = 30000, TotalBuyCost = 290\<rparr>
   \<and> (0 :: int) < 30000
   \<and> (2023, 1, 10000, 90) \<in> set (delivered example_db (yearly_rows example_db ''u1'' (2024, 12, 31)))
   \<and> (0 :: int) < 10000"
proof -
  note t2 = nonpositive_totals_never_valued [of example_db "''u2''" "(2024, 12, 31)"]
  note t1 = nonpositive_totals_never_valued [of example_db "''u1''" "(2024, 12, 31)"]
  have g: "(1, 0, - (3 / 10)) \<in> set (fund_groups example_db ''u2'' (2024, 12, 31))"
    "(2024, 1, 0, - (3 / 10)) \<in> set (year_fund_groups example_db ''u2'' (2024, 12, 31))"
    by (simp_all add: example_groups_u2)
  have p1: "positions_of example_db ''u1'' (2024, 12, 31) 1
       = Some \<lparr>FundID = 1, TotalQuantity = 30000, TotalBuyCost = 290\<rparr>"
    by (simp add: positions_of_def example_healthy example_rows_dec)
  have r1: "(2023, 1, 10000, 90)
       \<in> set (delivered example_db (yearly_rows example_db ''u1'' (2024, 12, 31)))"
    by (simp add: example_healthy example_yearly_rows)
  from t2 g(1) have a: "positions_of example_db ''u2'' (2024, 12, 31) 1 = None"
    by (meson order_refl)
  from t2 g(2) have b: "(2024, 1, 0, - (3 / 10))
       \<notin> set (delivered example_db (yearly_rows example_db ''u2'' (2024, 12, 31)))"
    by (meson order_refl)
  from t1 p1 have "(0 :: int) < TotalQuantity \<lparr>FundID = 1, TotalQuantity = 30000, TotalBuyCost = 290\<rparr>"
    by blast
  then have c: "(0 :: int) < 30000" by simp
  from t1 r1 have d: "(0 :: int) < 10000" by blast
  from g a b p1 c r1 d show ?thesis by blast
qed

subsection \<open>The count of trades\<close>

lemma length_filter_split:
  "length (filter P xs) = length (filter (\<lambda>x. P x \<and> Q x) xs) + length (filter (\<lambda>x. P x \<and> \<not> Q x) xs)"
  by (induction xs) auto

lemma card_dates_le:
  "card (th_trade_date ` {t \<in> set ts. th_user_id t = u})
     \<le> length (filter (\<lambda>t. th_user_id t = u) ts)"
proof -
  let ?us = "filter (\<lambda>t. th_user_id t = u) ts"
  have eq: "{t \<in> set ts. th_user_id t = u} = set ?us" by auto
  have a: "card (th_trade_date ` set ?us) \<le> card (set ?us)" by (rule card_image_le) (rule finite_set)
  have b: "card (set ?us) \<le> length ?us" by (rule card_length)
  show ?thesis unfolding eq using a b by (rule order_trans)
qed

text \<open>
  Claim C8. When the count query succeeds, \<^verbatim>\<open>/{user_id}/trades\<close> returns the number of rows
  of \<^verbatim>\<open>trade_histories\<close> whose \<^verbatim>\<open>user_id\<close> is the user's: the number of positions of the
  table that hold such a row. No date filters it (for every date, the rows at or before
  it and the rows after it are both counted), and rows are not merged by date (the
  count is at least the number of distinct trade dates, and can exceed it).
\<close>

theorem trades_count_is_row_count:
  "\<not> query_fails db \<longrightarrow>
     getTradesCountHandler db u
       = Inr \<lparr>Count = int (card {i. i < length (trade_histories db)
                                     \<and> th_user_id (trade_histories db ! i) = u})\<rparr>
     \<and> count_query db u
         = int (length (filter (\<lambda>t. th_user_id t = u \<and> th_trade_date t \<le> d) (trade_histories db)))
           + int (length (filter (\<lambda>t. th_user_id t = u \<and> \<not> th_trade_date t \<le> d)
                            (trade_histories db)))
     \<and> int (card (th_trade_date ` {t \<in> set (trade_histories db). th_user_id t = u}))
         \<le> count_query db u"
proof (intro impI conjI)
  assume "\<not> query_fails db"
  then show "getTradesCountHandler db u
       = Inr \<lparr>Count = int (card {i. i < length (trade_histories db)
                                     \<and> th_user_id (trade_histories db ! i) = u})\<rparr>"
    by (simp add: getTradesCountHandler_def count_query_def length_filter_conv_card)
next
  show "count_query db u
         = int (length (filter (\<lambda>t. th_user_id t = u \<and> th_trade_date t \<le> d) (trade_histories db)))
           + int (length (filter (\<lambda>t. th_user_id t = u \<and> \<not> th_trade_date t \<le> d)
                            (trade_histories db)))"
    unfolding count_query_def
    using length_filter_split [of "\<lambda>t. th_user_id t = u" "trade_histories db" "\<lambda>t. th_trade_date t \<le> d"]
    by simp
next
  show "int (card (th_trade_date ` {t \<in> set (trade_histories db). th_user_id t = u}))
         \<le> count_query db u"
    unfolding count_query_def using card_dates_le [where u = u and ts = "trade_histories db"] by simp
qed

text \<open>The loss ledger: u1 has two trades, both on 2024-01-10, and the count is 2,
  whatever the date; the example ledger: u1 has four rows.\<close>

theorem trades_count_is_row_count_witness:
  "\<not> query_fails loss_db
   \<and> getTradesCountHandler loss_db ''u1'' = Inr \<lparr>Count = 2\<rparr>
   \<and> map th_trade_date (filter (\<lambda>t. th_user_id t = ''u1'') (trade_histories loss_db))
       = [(2024, 1, 10), (2024, 1, 10)]
   \<and> getTradesCountHandler example_db ''u1'' = Inr \<lparr>Count = 4\<rparr>"
proof -
  have nf: "\<not> query_fails loss_db" "\<not> query_fails example_db"
    by (simp_all add: loss_db_def example_db_def)
  have c: "count_query loss_db ''u1'' = 2" "count_query example_db ''u1'' = 4"
    by (simp_all add: count_query_def loss_db_def example_db_def example_trades_def)
  have h: "getTradesCountHandler db u = Inr \<lparr>Count = count_query db u\<rparr>" if "\<not> query_fails db" for db u
    using that by (simp add: getTradesCountHandler_def)
  from trades_count_is_row_count [of loss_db "''u1''" "(2024, 1, 10)"] nf(1)
  have "getTradesCountHandler loss_db ''u1''
          = Inr \<lparr>Count = int (card {i. i < length (trade_histories loss_db)
                                     \<and> th_user_id (trade_histories loss_db ! i) = ''u1''})\<rparr>"
    by blast
  with h [OF nf(1), of "''u1''"] c(1)
  have a: "getTradesCountHandler loss_db ''u1'' = Inr \<lparr>Count = 2\<rparr>" by simp
  have b: "map th_trade_date (filter (\<lambda>t. th_user_id t = ''u1'') (trade_histories loss_db))
       = [(2024, 1, 10), (2024, 1, 10)]"
    by (simp add: loss_db_def)
  from h [OF nf(2), of "''u1''"] c(2)
  have e: "getTradesCountHandler example_db ''u1'' = Inr \<lparr>Count = 4\<rparr>" by simp
  from nf(1) a b e show ?thesis by blast
qed

end
